theory Spec2Isabelle
  imports Main
begin

section \<open>Python values seen by the msgspec blueprint\<close>

text \<open>
  The blueprint \<^verbatim>\<open>docs/blueprints/msgspec.py\<close> is duck-typed: it probes its target with
  \<^verbatim>\<open>inspect.isclass\<close>, \<^verbatim>\<open>__name__\<close>, \<^verbatim>\<open>__args__\<close> and \<^verbatim>\<open>__class__\<close>. The model keeps exactly
  what these probes can observe.

  A class has an identity, a declared name and its direct bases. A target is either a class
  (\<^verbatim>\<open>inspect.isclass\<close> is true) or any other object, of which the code can read the runtime
  class, the attribute \<^verbatim>\<open>__name__\<close> when there is one (a string, as for functions and typing
  aliases) and the tuple \<^verbatim>\<open>__args__\<close> when there is one. A subscripted alias such as
  \<^verbatim>\<open>list[T]\<close> or \<^verbatim>\<open>typing.List[T]\<close> is such an object, with name \<^verbatim>\<open>list\<close> or \<^verbatim>\<open>List\<close> and
  arguments \<^verbatim>\<open>(T,)\<close>; the integer 42 is an object of class \<^verbatim>\<open>int\<close> with neither attribute.
\<close>

datatype exc = TypeError | AttributeError | IndexError | KeyError

datatype pycls = PyCls (cls_id: nat) (cls_name: string) (cls_bases: "pycls list")

datatype pyobj =
    ClassObj pycls
  | Inst (inst_class: pycls) (inst_name: "string option") (inst_args: "pyobj list option")

text \<open>\<^verbatim>\<open>inspect.isclass(obj)\<close>.\<close>

fun isclass :: "pyobj \<Rightarrow> bool" where
  "isclass (ClassObj _) = True"
| "isclass (Inst _ _ _) = False"

text \<open>The attribute \<^verbatim>\<open>__name__\<close> of a value, \<open>None\<close> when the lookup raises AttributeError.\<close>

fun attr_name :: "pyobj \<Rightarrow> string option" where
  "attr_name (ClassObj c) = Some (cls_name c)"
| "attr_name (Inst _ nm _) = nm"

text \<open>
  \<^verbatim>\<open>str.lower\<close> on ASCII text: the letters A to Z move to a to z, every other character
  stays.
\<close>

definition lower_char :: "char \<Rightarrow> char" where
  "lower_char c =
     (let n = (of_char c :: nat) in if 65 \<le> n \<and> n \<le> 90 then char_of (n + 32) else c)"

definition lower :: "string \<Rightarrow> string" where
  "lower s = map lower_char s"

text \<open>
  \<^verbatim>\<open>issubclass(c, m)\<close> for two classes: \<open>m\<close> is \<open>c\<close> itself or is reached through the bases
  of \<open>c\<close> (the members of its method resolution order).
\<close>

fun issubclass_cls :: "pycls \<Rightarrow> pycls \<Rightarrow> bool" where
  "issubclass_cls (PyCls i n bs) m =
     (PyCls i n bs = m \<or> list_ex (\<lambda>b. issubclass_cls b m) bs)"

section \<open>The configured marker class\<close>

text \<open>
  The class attribute \<^verbatim>\<open>target_class\<close> holds a dotted path until it is resolved, then the
  marker class, or \<^verbatim>\<open>None\<close> when the owning library is not installed.
\<close>

datatype target_class_t = TStr string | TNone | TCls pycls

record extension_cls =
  target_class :: target_class_t
  match_subclasses :: bool

text \<open>The class attributes as \<^verbatim>\<open>MsgspecExtension\<close> declares them.\<close>

definition MsgspecExtension :: extension_cls where
  "MsgspecExtension = \<lparr>target_class = TStr ''msgspec.Struct'', match_subclasses = True\<rparr>"

text \<open>
  Modelled from the spec: \<^verbatim>\<open>_load_class\<close> of the base extension class, which is not part of
  the blueprint file. The spec says that the marker base type is resolved lazily by its dotted
  path the first time it is needed and cached, and that it is unavailable when its owning
  library is not present. The import itself is the parameter \<open>import_string\<close>, which gives
  \<open>None\<close> when the import fails.
\<close>

definition load_class :: "(string \<Rightarrow> pycls option) \<Rightarrow> extension_cls \<Rightarrow> extension_cls" where
  "load_class import_string cls =
     (case target_class cls of
        TStr path \<Rightarrow>
          cls\<lparr>target_class := (case import_string path of None \<Rightarrow> TNone | Some c \<Rightarrow> TCls c)\<rparr>
      | _ \<Rightarrow> cls)"

text \<open>
  \<^verbatim>\<open>issubclass(class_val, cls.target_class)\<close>: a TypeError unless both arguments are classes.
\<close>

fun issubclass :: "pyobj \<Rightarrow> target_class_t \<Rightarrow> exc + bool" where
  "issubclass (ClassObj c) (TCls m) = Inr (issubclass_cls c m)"
| "issubclass _ _ = Inl TypeError"

text \<open>\<^verbatim>\<open>class_val == cls.target_class\<close>: classes compare by identity.\<close>

fun py_eq :: "pyobj \<Rightarrow> target_class_t \<Rightarrow> bool" where
  "py_eq v (TCls m) = (v = ClassObj m)"
| "py_eq _ _ = False"

section \<open>\<^verbatim>\<open>get_iterable_class\<close>\<close>

text \<open>
  A class is returned as it is. Of any other object the name is read with the default
  \<^verbatim>\<open>'none'\<close> and lowered; when it is \<^verbatim>\<open>'list'\<close> the result is \<^verbatim>\<open>obj.__args__[0]\<close>, which raises
  AttributeError without \<^verbatim>\<open>__args__\<close> and IndexError on an empty tuple; otherwise the result
  is the runtime class.
\<close>

fun get_iterable_class :: "pyobj \<Rightarrow> exc + (pyobj \<times> bool)" where
  "get_iterable_class (ClassObj c) = Inr (ClassObj c, False)"
| "get_iterable_class (Inst k nm args) =
     (if lower (case nm of None \<Rightarrow> ''none'' | Some s \<Rightarrow> s) = ''list''
      then (case args of
              None \<Rightarrow> Inl AttributeError
            | Some [] \<Rightarrow> Inl IndexError
            | Some (a # _) \<Rightarrow> Inr (a, True))
      else Inr (ClassObj k, False))"

section \<open>\<^verbatim>\<open>MsgspecExtension._matches\<close>\<close>

text \<open>The handler \<^verbatim>\<open>except TypeError: return False\<close>.\<close>

fun except_TypeError :: "exc + bool \<Rightarrow> exc + bool" where
  "except_TypeError (Inl TypeError) = Inr False"
| "except_TypeError r = r"

text \<open>
  The first statement of \<^verbatim>\<open>_matches\<close>: a \<^verbatim>\<open>target_class\<close> that is still a string is
  resolved; the class attribute keeps the result.
\<close>

definition ensure_loaded :: "(string \<Rightarrow> pycls option) \<Rightarrow> extension_cls \<Rightarrow> extension_cls" where
  "ensure_loaded import_string cls =
     (case target_class cls of
        TStr _ \<Rightarrow> load_class import_string cls
      | _ \<Rightarrow> cls)"

text \<open>
  The class method \<^verbatim>\<open>_matches\<close>, here \<open>matches\<close>. It returns its answer and leaves the
  resolved marker in the class attribute, so the result is paired with the class state after
  the call.
\<close>

definition matches ::
  "(string \<Rightarrow> pycls option) \<Rightarrow> extension_cls \<Rightarrow> pyobj \<Rightarrow> (exc + bool) \<times> extension_cls" where
  "matches import_string cls0 target =
     (let cls = ensure_loaded import_string cls0
      in if target_class cls = TNone then (Inr False, cls)
         else if match_subclasses cls then
           (except_TypeError
              (case get_iterable_class target of
                 Inl e \<Rightarrow> Inl e
               | Inr (class_val, _) \<Rightarrow> issubclass class_val (target_class cls)), cls)
         else
           ((case get_iterable_class target of
               Inl e \<Rightarrow> Inl e
             | Inr (class_val, _) \<Rightarrow> Inr (py_eq class_val (target_class cls))), cls))"

section \<open>Schema fragments and the component registry\<close>

text \<open>
  A schema fragment is a JSON object: its keys in order with their values. The compiler
  \<^verbatim>\<open>msgspec.json.schema_components\<close> is a library outside the repository; it is a parameter
  that maps the list of targets and the reference template to the top-level fragments and
  the components dictionary, or raises.
\<close>

datatype json =
    JNull
  | JBool bool
  | JInt int
  | JStr string
  | JArr "json list"
  | JObj "(string \<times> json) list"

type_synonym schema = "(string \<times> json) list"

type_synonym components = "(string \<times> schema) list"

type_synonym compiler = "pyobj list \<Rightarrow> string \<Rightarrow> exc + (schema list \<times> components)"

text \<open>\<^verbatim>\<open>key in d\<close> for a dictionary.\<close>

definition has_key :: "string \<Rightarrow> (string \<times> 'v) list \<Rightarrow> bool" where
  "has_key k d = (map_of d k \<noteq> None)"

text \<open>\<^verbatim>\<open>d.pop(k)\<close>: the value under the key and the dictionary without it, or KeyError.\<close>

definition dict_pop :: "(string \<times> 'v) list \<Rightarrow> string \<Rightarrow> exc + ('v \<times> (string \<times> 'v) list)" where
  "dict_pop d k =
     (case map_of d k of
        None \<Rightarrow> Inl KeyError
      | Some v \<Rightarrow> Inr (v, filter (\<lambda>(k', _). k' \<noteq> k) d))"

text \<open>\<^verbatim>\<open>ResolvedComponent\<close> with the four fields the blueprint sets.\<close>

record resolved_component =
  comp_name :: string
  comp_type :: string
  comp_object :: string
  comp_schema :: schema

text \<open>\<^verbatim>\<open>ResolvedComponent.SCHEMA\<close>.\<close>

definition SCHEMA :: string where
  "SCHEMA = ''schemas''"

type_synonym registry = "string \<rightharpoonup> resolved_component"

text \<open>
  Modelled from the spec: \<^verbatim>\<open>register_on_missing\<close> of the shared component registry, which is
  not part of the blueprint file. The spec gives the registry as keyed by name and the
  operation as \<^verbatim>\<open>register_if_absent(name, kind, body)\<close>: insert the entry only when no
  component of that name is registered, never overwrite.
\<close>

definition register_on_missing :: "resolved_component \<Rightarrow> registry \<Rightarrow> registry" where
  "register_on_missing component reg =
     (if reg (comp_name component) = None then reg(comp_name component \<mapsto> component) else reg)"

record auto_schema =
  registry :: registry

section \<open>\<^verbatim>\<open>MsgspecExtension.get_name\<close> and \<^verbatim>\<open>map_serializer\<close>\<close>

definition get_name :: "pyobj \<Rightarrow> auto_schema \<Rightarrow> string \<Rightarrow> exc + string" where
  "get_name target auto_schema direction =
     (case get_iterable_class target of
        Inl e \<Rightarrow> Inl e
      | Inr (class_val, is_iterable) \<Rightarrow>
          (case attr_name class_val of
             None \<Rightarrow> Inl AttributeError
           | Some class_name \<Rightarrow>
               Inr (if is_iterable then ''ArrayOf'' @ class_name else class_name)))"

text \<open>The component built for one entry of the components dictionary.\<close>

definition schema_component :: "string \<Rightarrow> schema \<Rightarrow> resolved_component" where
  "schema_component sub_name sub_schema =
     \<lparr>comp_name = sub_name, comp_type = SCHEMA, comp_object = sub_name,
      comp_schema = sub_schema\<rparr>"

text \<open>The loop over \<^verbatim>\<open>components.items()\<close>, in the dictionary's order.\<close>

fun register_components :: "components \<Rightarrow> registry \<Rightarrow> registry" where
  "register_components [] reg = reg"
| "register_components ((sub_name, sub_schema) # rest) reg =
     register_components rest
       (register_on_missing (schema_component sub_name sub_schema) reg)"

text \<open>
  The result is the returned fragment with the \<^verbatim>\<open>auto_schema\<close> after the registrations.
  Every raise happens before the first registration, so an error leaves the registry as it
  was.
\<close>

definition map_serializer ::
  "compiler \<Rightarrow> pyobj \<Rightarrow> auto_schema \<Rightarrow> string \<Rightarrow> exc + (schema \<times> auto_schema)" where
  "map_serializer schema_components target auto_schema direction =
     (case schema_components [target] ''#/components/schemas/{name}'' of
        Inl e \<Rightarrow> Inl e
      | Inr (possible_schemas, components) \<Rightarrow>
          (case possible_schemas of
             [] \<Rightarrow> Inl IndexError
           | possible_schema # _ \<Rightarrow>
               (case (if has_key ''type'' possible_schema
                      then Inr (possible_schema, components)
                      else (case attr_name target of
                              None \<Rightarrow> Inl AttributeError
                            | Some n \<Rightarrow> dict_pop components n)) of
                  Inl e \<Rightarrow> Inl e
                | Inr (schema, components') \<Rightarrow>
                    Inr (schema,
                         auto_schema\<lparr>registry :=
                           register_components components' (registry auto_schema)\<rparr>))))"

section \<open>Concrete targets and compiler outputs\<close>

text \<open>
  The values the closed theorems below are evaluated at. \<^verbatim>\<open>Struct\<close> stands for
  \<^verbatim>\<open>msgspec.Struct\<close>; \<^verbatim>\<open>Point\<close> is a struct with two integer fields and \<^verbatim>\<open>Line\<close> a struct
  with two \<^verbatim>\<open>Point\<close> fields. The base \<^verbatim>\<open>object\<close> is left out of every list of bases.
\<close>

definition Struct :: pycls where
  "Struct = PyCls 1 ''Struct'' []"

definition Point :: pycls where
  "Point = PyCls 2 ''Point'' [Struct]"

definition Line :: pycls where
  "Line = PyCls 3 ''Line'' [Struct]"

definition Unrelated :: pycls where
  "Unrelated = PyCls 4 ''Unrelated'' []"

definition int_class :: pycls where
  "int_class = PyCls 5 ''int'' []"

definition GenericAlias :: pycls where
  "GenericAlias = PyCls 6 ''GenericAlias'' []"

definition SpecialGenericAlias :: pycls where
  "SpecialGenericAlias = PyCls 7 ''_SpecialGenericAlias'' []"

text \<open>
  The alias \<^verbatim>\<open>list[a]\<close>: not a class for \<^verbatim>\<open>inspect.isclass\<close> (Python 3.11 and later), named
  \<^verbatim>\<open>list\<close>, with the one argument \<open>a\<close>.
\<close>

definition list_alias :: "pyobj \<Rightarrow> pyobj" where
  "list_alias a = Inst GenericAlias (Some ''list'') (Some [a])"

text \<open>The integer \<^verbatim>\<open>42\<close>: an instance of \<^verbatim>\<open>int\<close> with no \<^verbatim>\<open>__name__\<close> and no \<^verbatim>\<open>__args__\<close>.\<close>

definition int_42 :: pyobj where
  "int_42 = Inst int_class None None"

text \<open>
  The unsubscripted alias \<^verbatim>\<open>typing.List\<close>: not a class, named \<^verbatim>\<open>List\<close>, and without the
  attribute \<^verbatim>\<open>__args__\<close>.
\<close>

definition typing_List :: pyobj where
  "typing_List = Inst SpecialGenericAlias (Some ''List'') None"

text \<open>The alias \<^verbatim>\<open>list[()]\<close>: named \<^verbatim>\<open>list\<close>, with the empty tuple as \<^verbatim>\<open>__args__\<close>.\<close>

definition empty_list_alias :: pyobj where
  "empty_list_alias = Inst GenericAlias (Some ''list'') (Some [])"

text \<open>An import that finds the library, and one that does not.\<close>

definition import_msgspec :: "string \<Rightarrow> pycls option" where
  "import_msgspec path = (if path = ''msgspec.Struct'' then Some Struct else None)"

definition import_missing :: "string \<Rightarrow> pycls option" where
  "import_missing path = None"

text \<open>
  The fragments a compiler gives for these structs, in the shape msgspec writes them: the
  component of a struct is an object schema with its own \<^verbatim>\<open>type\<close> key, the top-level
  fragment of a bare struct is a reference and that of a list is an array schema.
\<close>

definition point_schema :: schema where
  "point_schema =
     [(''title'', JStr ''Point''), (''type'', JStr ''object''),
      (''properties'',
         JObj [(''x'', JObj [(''type'', JStr ''integer'')]),
               (''y'', JObj [(''type'', JStr ''integer'')])]),
      (''required'', JArr [JStr ''x'', JStr ''y''])]"

definition line_schema :: schema where
  "line_schema =
     [(''title'', JStr ''Line''), (''type'', JStr ''object''),
      (''properties'',
         JObj [(''start'', JObj [(''$ref'', JStr ''#/components/schemas/Point'')]),
               (''end'', JObj [(''$ref'', JStr ''#/components/schemas/Point'')])]),
      (''required'', JArr [JStr ''start'', JStr ''end''])]"

definition example_compiler :: compiler where
  "example_compiler targets ref_template =
     (if targets = [ClassObj Point] then
        Inr ([[(''$ref'', JStr ''#/components/schemas/Point'')]],
             [(''Point'', point_schema)])
      else if targets = [list_alias (ClassObj Point)] then
        Inr ([[(''type'', JStr ''array''),
               (''items'', JObj [(''$ref'', JStr ''#/components/schemas/Point'')])]],
             [(''Point'', point_schema)])
      else if targets = [ClassObj Line] then
        Inr ([[(''$ref'', JStr ''#/components/schemas/Line'')]],
             [(''Line'', line_schema), (''Point'', point_schema)])
      else Inl TypeError)"

text \<open>
  A compiler that files every component under a module-qualified name, as happens when two
  reachable structs share a class name.
\<close>

definition qualified_compiler :: compiler where
  "qualified_compiler targets ref_template =
     Inr ([[(''$ref'', JStr ''#/components/schemas/shapes.Point'')]],
          [(''shapes.Point'', point_schema), (''geo.Point'', point_schema)])"

text \<open>An object with no \<^verbatim>\<open>__name__\<close>, handed to \<^verbatim>\<open>map_serializer\<close> as the target.\<close>

definition nameless_target :: pyobj where
  "nameless_target = Inst Unrelated None None"

text \<open>A registry that already holds a component named \<^verbatim>\<open>Point\<close> with another body.\<close>

definition sentinel :: resolved_component where
  "sentinel = schema_component ''Point'' [(''sentinel'', JBool True)]"

definition seeded_auto_schema :: auto_schema where
  "seeded_auto_schema = \<lparr>registry = [''Point'' \<mapsto> sentinel]\<rparr>"

definition empty_auto_schema :: auto_schema where
  "empty_auto_schema = \<lparr>registry = Map.empty\<rparr>"

text \<open>The registry after \<^verbatim>\<open>Point\<close> was registered as a component of \<^verbatim>\<open>Line\<close>.\<close>

definition registered_auto_schema :: auto_schema where
  "registered_auto_schema =
     \<lparr>registry = [''Point'' \<mapsto> schema_component ''Point'' point_schema]\<rparr>"

section \<open>Auxiliary facts\<close>

lemma lower_list: "lower ''list'' = ''list''"
  by code_simp

lemma lower_List: "lower ''List'' = ''list''"
  by code_simp

lemma lower_none: "lower ''none'' \<noteq> ''list''"
  by code_simp

lemma issubclass_cls_refl: "issubclass_cls c c"
  by (cases c) simp

text \<open>
  What the registration loop leaves under a name: the component that was there, or else the
  one built from the dictionary's entry of that name.
\<close>

lemma register_components_lookup:
  "register_components cs reg n =
     (case reg n of
        Some c \<Rightarrow> Some c
      | None \<Rightarrow> map_option (schema_component n) (map_of cs n))"
proof (induction cs arbitrary: reg)
  case Nil
  then show ?case by (simp split: option.splits)
next
  case (Cons p cs)
  obtain k v where p: "p = (k, v)" by (cases p)
  show ?case
    unfolding p
    by (simp add: Cons.IH register_on_missing_def schema_component_def split: option.splits)
qed

lemma register_components_idem:
  "register_components cs (register_components cs reg) = register_components cs reg"
  by (rule ext) (simp add: register_components_lookup split: option.splits)

lemma map_of_filter_key:
  "map_of (filter (\<lambda>(k', _). k' \<noteq> n) d) = (map_of d)(n := None)"
  by (induction d) (auto simp: fun_eq_iff)

lemma ensure_loaded_match_subclasses:
  "match_subclasses (ensure_loaded imp cls) = match_subclasses cls"
  by (simp add: ensure_loaded_def load_class_def split: target_class_t.splits)

lemma ensure_loaded_not_str:
  "target_class (ensure_loaded imp cls) \<noteq> TStr p"
  by (simp add: ensure_loaded_def load_class_def split: target_class_t.splits option.splits)

section \<open>Names\<close>

text \<open>
  C4. For every class \<open>T\<close>, and so for every struct type, \<^verbatim>\<open>get_name\<close> on \<open>T\<close> returns the
  declared name of \<open>T\<close>, \<^verbatim>\<open>get_name\<close> on \<^verbatim>\<open>list[T]\<close> returns \<^verbatim>\<open>ArrayOf\<close> followed by that name,
  and the two results differ, whatever \<^verbatim>\<open>auto_schema\<close> and direction the calls are given.
\<close>

theorem get_name_struct_and_list:
  "get_name (ClassObj T) a d = Inr (cls_name T)
   \<and> get_name (list_alias (ClassObj T)) a d = Inr (''ArrayOf'' @ cls_name T)
   \<and> get_name (ClassObj T) a d \<noteq> get_name (list_alias (ClassObj T)) a' d'"
  by (simp add: get_name_def list_alias_def lower_list)

section \<open>Unwrapping a target\<close>

text \<open>
  C7, as amended. A class is returned as itself with the flag false. The flag is true
  exactly when the target is not a class, its name lowers to \<^verbatim>\<open>list\<close> and \<^verbatim>\<open>__args__\<close> holds at
  least one element, and the returned value is then the first element. A target that is not
  a class and whose name does not lower to \<^verbatim>\<open>list\<close> gives its runtime class with the flag
  false. A target that is not a class and whose name lowers to \<^verbatim>\<open>list\<close> raises AttributeError
  without \<^verbatim>\<open>__args__\<close> and IndexError with an empty \<^verbatim>\<open>__args__\<close>.
\<close>

theorem get_iterable_class_cases:
  "get_iterable_class (ClassObj c) = Inr (ClassObj c, False)
   \<and> (get_iterable_class target = Inr (class_val, True) \<longleftrightarrow>
        (\<exists>k nm rest. target = Inst k nm (Some (class_val # rest))
           \<and> lower (case nm of None \<Rightarrow> ''none'' | Some s \<Rightarrow> s) = ''list''))
   \<and> (lower (case nm of None \<Rightarrow> ''none'' | Some s \<Rightarrow> s) \<noteq> ''list'' \<longrightarrow>
        get_iterable_class (Inst k nm args) = Inr (ClassObj k, False))
   \<and> (lower (case nm of None \<Rightarrow> ''none'' | Some s \<Rightarrow> s) = ''list'' \<longrightarrow>
        get_iterable_class (Inst k nm None) = Inl AttributeError
        \<and> get_iterable_class (Inst k nm (Some [])) = Inl IndexError)"
proof -
  have "get_iterable_class target = Inr (class_val, True) \<longleftrightarrow>
        (\<exists>k nm rest. target = Inst k nm (Some (class_val # rest))
           \<and> lower (case nm of None \<Rightarrow> ''none'' | Some s \<Rightarrow> s) = ''list'')"
    by (cases target) (auto split: option.splits list.splits if_splits)
  then show ?thesis by simp
qed

text \<open>
  The theorem at \<^verbatim>\<open>list[42]\<close>, at \<^verbatim>\<open>42\<close>, at \<^verbatim>\<open>typing.List\<close> and at an alias named \<^verbatim>\<open>List\<close> with
  an empty argument tuple.
\<close>

theorem get_iterable_class_cases_witness:
  "get_iterable_class (list_alias int_42) = Inr (int_42, True)
   \<and> get_iterable_class int_42 = Inr (ClassObj int_class, False)
   \<and> get_iterable_class typing_List = Inl AttributeError
   \<and> get_iterable_class (Inst GenericAlias (Some ''List'') (Some [])) = Inl IndexError"
proof -
  note th = get_iterable_class_cases [of _ "list_alias int_42" int_42 "Some ''List''"
      SpecialGenericAlias]
  have a: "\<exists>k nm rest. list_alias int_42 = Inst k nm (Some (int_42 # rest))
           \<and> lower (case nm of None \<Rightarrow> ''none'' | Some s \<Rightarrow> s) = ''list''"
    by (simp add: list_alias_def lower_list)
  have b: "lower (case Some ''List'' of None \<Rightarrow> ''none'' | Some s \<Rightarrow> s) = ''list''"
    by (simp add: lower_List)
  have c: "get_iterable_class int_42 = Inr (ClassObj int_class, False)"
    using get_iterable_class_cases [of _ _ _ None int_class None]
    by (simp add: int_42_def lower_none)
  have d: "get_iterable_class (Inst GenericAlias (Some ''List'') (Some [])) = Inl IndexError"
    using get_iterable_class_cases [of _ _ _ "Some ''List''" GenericAlias] b by blast
  from th a b c d show ?thesis unfolding typing_List_def by blast
qed

text \<open>
  C7 as stated fails at \<^verbatim>\<open>typing.List\<close>: the target is not a class and its name lowers to
  \<^verbatim>\<open>list\<close>, yet the call raises AttributeError and returns no flag.
\<close>

theorem get_iterable_class_counterexample:
  "\<not> isclass typing_List
   \<and> lower (case attr_name typing_List of None \<Rightarrow> ''none'' | Some s \<Rightarrow> s) = ''list''
   \<and> get_iterable_class typing_List = Inl AttributeError"
  by (simp add: typing_List_def lower_List)

section \<open>Matching\<close>

lemma msgspec_marker:
  "target_class (ensure_loaded import_msgspec MsgspecExtension) = TCls Struct"
  by (simp add: ensure_loaded_def load_class_def MsgspecExtension_def import_msgspec_def)

lemma msgspec_subclasses: "match_subclasses MsgspecExtension"
  by (simp add: MsgspecExtension_def)

text \<open>
  C3. Let the marker resolve to the class \<open>M\<close> and let subclass matching be on, as
  \<^verbatim>\<open>MsgspecExtension\<close> configures it. Then \<^verbatim>\<open>_matches\<close> returns true on every class \<open>T\<close> that
  is a subclass of \<open>M\<close> and on \<^verbatim>\<open>list[T]\<close>, and returns false on every target that
  \<^verbatim>\<open>get_iterable_class\<close> resolves to something other than a subclass of \<open>M\<close>.
\<close>

theorem matches_struct_and_list:
  assumes marker: "target_class (ensure_loaded import_string cls) = TCls M"
      and sub: "match_subclasses cls"
  shows "(issubclass_cls T M \<longrightarrow>
            fst (matches import_string cls (ClassObj T)) = Inr True
          \<and> fst (matches import_string cls (list_alias (ClassObj T))) = Inr True)
       \<and> (\<forall>target class_val is_list.
            get_iterable_class target = Inr (class_val, is_list)
            \<and> (\<forall>c. class_val = ClassObj c \<longrightarrow> \<not> issubclass_cls c M)
            \<longrightarrow> fst (matches import_string cls target) = Inr False)"
proof -
  have m: "fst (matches import_string cls t) =
      except_TypeError (case get_iterable_class t of Inl e \<Rightarrow> Inl e
                        | Inr (class_val, _) \<Rightarrow> issubclass class_val (TCls M))" for t
    using marker sub
    by (simp add: matches_def Let_def ensure_loaded_match_subclasses
          split: sum.splits prod.splits)
  have a: "issubclass_cls T M \<longrightarrow>
            fst (matches import_string cls (ClassObj T)) = Inr True
          \<and> fst (matches import_string cls (list_alias (ClassObj T))) = Inr True"
    by (simp add: m list_alias_def lower_list)
  have b: "fst (matches import_string cls target) = Inr False"
    if "get_iterable_class target = Inr (class_val, is_list)"
       "\<forall>c. class_val = ClassObj c \<longrightarrow> \<not> issubclass_cls c M" for target class_val is_list
    using that by (cases class_val) (simp_all add: m)
  from a b show ?thesis by blast
qed

text \<open>
  The theorem for \<^verbatim>\<open>MsgspecExtension\<close> with the library installed: \<^verbatim>\<open>Point\<close> and
  \<^verbatim>\<open>list[Point]\<close> match, the integer 42 and an unrelated class do not.
\<close>

theorem matches_struct_and_list_witness:
  "fst (matches import_msgspec MsgspecExtension (ClassObj Point)) = Inr True
   \<and> fst (matches import_msgspec MsgspecExtension (list_alias (ClassObj Point))) = Inr True
   \<and> fst (matches import_msgspec MsgspecExtension int_42) = Inr False
   \<and> fst (matches import_msgspec MsgspecExtension (ClassObj Unrelated)) = Inr False"
proof -
  note th = matches_struct_and_list [OF msgspec_marker msgspec_subclasses, of Point]
  have pt: "issubclass_cls Point Struct"
    by (simp add: Point_def Struct_def)
  have i42: "get_iterable_class int_42 = Inr (ClassObj int_class, False)"
    by (simp add: int_42_def lower_none)
  have i42n: "\<forall>c. ClassObj int_class = ClassObj c \<longrightarrow> \<not> issubclass_cls c Struct"
    by (simp add: int_class_def Struct_def)
  have un: "get_iterable_class (ClassObj Unrelated) = Inr (ClassObj Unrelated, False)"
    by simp
  have unn: "\<forall>c. ClassObj Unrelated = ClassObj c \<longrightarrow> \<not> issubclass_cls c Struct"
    by (simp add: Unrelated_def Struct_def)
  from th pt i42 i42n un unn show ?thesis by blast
qed

text \<open>
  C9. When the marker is unavailable, because \<^verbatim>\<open>target_class\<close> is already \<^verbatim>\<open>None\<close> or because
  its dotted path does not import, \<^verbatim>\<open>_matches\<close> returns false on every target without
  raising. The class attribute is \<^verbatim>\<open>None\<close> afterwards, so every later call returns false as
  well, whatever the import would then give.
\<close>

theorem matches_marker_unavailable:
  assumes "target_class cls = TNone
           \<or> (\<exists>path. target_class cls = TStr path \<and> import_string path = None)"
  shows "fst (matches import_string cls target) = Inr False
       \<and> target_class (snd (matches import_string cls target)) = TNone
       \<and> fst (matches import_string' (snd (matches import_string cls target)) target')
           = Inr False"
proof -
  have l: "target_class (ensure_loaded import_string cls) = TNone"
    using assms by (auto simp: ensure_loaded_def load_class_def)
  have m: "matches import_string cls target = (Inr False, ensure_loaded import_string cls)"
    using l by (simp add: matches_def Let_def)
  have l': "target_class (ensure_loaded import_string' (ensure_loaded import_string cls)) = TNone"
    using l by (simp add: ensure_loaded_def)
  have m': "fst (matches import_string' (ensure_loaded import_string cls) target') = Inr False"
    using l' by (simp add: matches_def Let_def)
  show ?thesis using l m m' by simp
qed

text \<open>
  The theorem for \<^verbatim>\<open>MsgspecExtension\<close> without the library, at \<^verbatim>\<open>typing.List\<close> (a target on
  which \<^verbatim>\<open>get_iterable_class\<close> would raise), followed by a call on \<^verbatim>\<open>Point\<close>.
\<close>

theorem matches_marker_unavailable_witness:
  "fst (matches import_missing MsgspecExtension typing_List) = Inr False
   \<and> target_class (snd (matches import_missing MsgspecExtension typing_List)) = TNone
   \<and> fst (matches import_msgspec (snd (matches import_missing MsgspecExtension typing_List))
            (ClassObj Point)) = Inr False"
proof -
  have h: "target_class MsgspecExtension = TNone
           \<or> (\<exists>path. target_class MsgspecExtension = TStr path \<and> import_missing path = None)"
    by (simp add: MsgspecExtension_def import_missing_def)
  show ?thesis
    by (rule matches_marker_unavailable [OF h])
qed

text \<open>
  C5. The claim is what the handler \<^verbatim>\<open>except TypeError: return False\<close> is there for, and the
  code does not keep it: with the marker available, \<^verbatim>\<open>_matches\<close> raises AttributeError at
  \<^verbatim>\<open>typing.List\<close> and IndexError at \<^verbatim>\<open>list[()]\<close>, since \<^verbatim>\<open>obj.__args__[0]\<close> fails inside the
  \<^verbatim>\<open>try\<close> with an exception the handler does not name. At \<^verbatim>\<open>list[42]\<close> the failure is the
  TypeError of the subclass check, which is caught, and the answer is false.
\<close>

theorem matches_raises_at_unwrap_failure:
  "fst (matches import_msgspec MsgspecExtension typing_List) = Inl AttributeError
   \<and> fst (matches import_msgspec MsgspecExtension empty_list_alias) = Inl IndexError
   \<and> fst (matches import_msgspec MsgspecExtension (list_alias int_42)) = Inr False"
proof -
  have a: "fst (matches import_msgspec MsgspecExtension typing_List) = Inl AttributeError"
    by (simp add: matches_def Let_def msgspec_marker ensure_loaded_match_subclasses
          msgspec_subclasses typing_List_def lower_List)
  have b: "fst (matches import_msgspec MsgspecExtension empty_list_alias) = Inl IndexError"
    by (simp add: matches_def Let_def msgspec_marker ensure_loaded_match_subclasses
          msgspec_subclasses empty_list_alias_def lower_list)
  have c: "fst (matches import_msgspec MsgspecExtension (list_alias int_42)) = Inr False"
    by (simp add: matches_def Let_def msgspec_marker ensure_loaded_match_subclasses
          msgspec_subclasses list_alias_def int_42_def lower_list)
  from a b c show ?thesis by simp
qed

section \<open>Schemas\<close>

lemma cls_name_Point: "cls_name Point = ''Point''"
  by (simp add: Point_def)

lemma cls_name_Line: "cls_name Line = ''Line''"
  by (simp add: Line_def)

lemma compile_point:
  "example_compiler [ClassObj Point] ''#/components/schemas/{name}''
     = Inr ([(''$ref'', JStr ''#/components/schemas/Point'')] # [], [(''Point'', point_schema)])"
  by (simp add: example_compiler_def)

lemma compile_list_point:
  "example_compiler [list_alias (ClassObj Point)] ''#/components/schemas/{name}''
     = Inr ([(''type'', JStr ''array''),
             (''items'', JObj [(''$ref'', JStr ''#/components/schemas/Point'')])] # [],
            [(''Point'', point_schema)])"
  by (simp add: example_compiler_def list_alias_def)

lemma compile_line:
  "example_compiler [ClassObj Line] ''#/components/schemas/{name}''
     = Inr ([(''$ref'', JStr ''#/components/schemas/Line'')] # [],
            [(''Line'', line_schema), (''Point'', point_schema)])"
  by (simp add: example_compiler_def list_alias_def Line_def Point_def)

lemma compile_qualified:
  "qualified_compiler [t] ''#/components/schemas/{name}''
     = Inr ([(''$ref'', JStr ''#/components/schemas/shapes.Point'')] # [],
            [(''shapes.Point'', point_schema), (''geo.Point'', point_schema)])"
  by (simp add: qualified_compiler_def)

text \<open>
  C1. When the compiler returns its fragments and components, \<^verbatim>\<open>map_serializer\<close> returns the
  first top-level fragment as it is if that fragment has a \<^verbatim>\<open>type\<close> key, and then every
  component goes to the registration loop. Otherwise, when the components hold an entry under
  the target's \<^verbatim>\<open>__name__\<close>, it returns that entry as the compiler gave it, and the loop runs
  over the components without that name.
\<close>
theorem map_serializer_shape_decision:
  assumes "schema_components [target] ''#/components/schemas/{name}''
             = Inr (possible_schema # others, components)"
  shows "(has_key ''type'' possible_schema \<longrightarrow>
            map_serializer schema_components target a d
              = Inr (possible_schema,
                     a\<lparr>registry := register_components components (registry a)\<rparr>))
       \<and> (\<not> has_key ''type'' possible_schema \<and> attr_name target = Some n
            \<and> map_of components n = Some entry \<longrightarrow>
            (\<exists>rest. map_serializer schema_components target a d
                       = Inr (entry, a\<lparr>registry := register_components rest (registry a)\<rparr>)
                  \<and> map_of rest = (map_of components)(n := None)))"
  using assms by (auto simp: map_serializer_def dict_pop_def map_of_filter_key)

text \<open>
  The theorem at \<^verbatim>\<open>list[Point]\<close>, whose top-level fragment is an array schema, and at the
  bare struct \<^verbatim>\<open>Line\<close>, whose top-level fragment is a reference.
\<close>

theorem map_serializer_shape_decision_witness:
  "map_serializer example_compiler (list_alias (ClassObj Point)) empty_auto_schema ''response''
     = Inr ([(''type'', JStr ''array''),
             (''items'', JObj [(''$ref'', JStr ''#/components/schemas/Point'')])],
            empty_auto_schema\<lparr>registry :=
              register_components [(''Point'', point_schema)] (registry empty_auto_schema)\<rparr>)
   \<and> (\<exists>rest. map_serializer example_compiler (ClassObj Line) empty_auto_schema ''response''
                = Inr (line_schema,
                       empty_auto_schema\<lparr>registry :=
                         register_components rest (registry empty_auto_schema)\<rparr>)
           \<and> map_of rest
               = (map_of [(''Line'', line_schema), (''Point'', point_schema)])(''Line'' := None))"
proof -
  note t1 = map_serializer_shape_decision [where schema_components = example_compiler
      and a = empty_auto_schema and d = "''response''", OF compile_list_point]
  note t2 = map_serializer_shape_decision [where schema_components = example_compiler
      and a = empty_auto_schema and d = "''response''" and n = "''Line''" and entry = line_schema,
      OF compile_line]
  have a: "has_key ''type'' [(''type'', JStr ''array''),
             (''items'', JObj [(''$ref'', JStr ''#/components/schemas/Point'')])]"
    by (simp add: has_key_def)
  have b: "\<not> has_key ''type'' [(''$ref'', JStr ''#/components/schemas/Line'')]
           \<and> attr_name (ClassObj Line) = Some ''Line''
           \<and> map_of [(''Line'', line_schema), (''Point'', point_schema)] ''Line''
               = Some line_schema"
    by (simp add: has_key_def Line_def)
  from t1 a t2 b show ?thesis by blast
qed

text \<open>
  C10. When the first top-level fragment has no \<^verbatim>\<open>type\<close> key, \<^verbatim>\<open>map_serializer\<close> raises
  KeyError if the components hold no entry under the target's \<^verbatim>\<open>__name__\<close>, and
  AttributeError if the target has no \<^verbatim>\<open>__name__\<close> at all; in both cases nothing is returned.
\<close>
theorem map_serializer_missing_entry:
  assumes "schema_components [target] ''#/components/schemas/{name}''
             = Inr (possible_schema # others, components)"
      and "\<not> has_key ''type'' possible_schema"
  shows "(attr_name target = Some n \<and> map_of components n = None \<longrightarrow>
            map_serializer schema_components target a d = Inl KeyError)
       \<and> (attr_name target = None \<longrightarrow>
            map_serializer schema_components target a d = Inl AttributeError)"
  using assms by (simp add: map_serializer_def dict_pop_def)

text \<open>
  The theorem at \<^verbatim>\<open>Point\<close> with components filed under qualified names, and at a target
  without a name.
\<close>

theorem map_serializer_missing_entry_witness:
  "map_serializer qualified_compiler (ClassObj Point) empty_auto_schema ''response''
     = Inl KeyError
   \<and> map_serializer qualified_compiler nameless_target empty_auto_schema ''response''
     = Inl AttributeError"
proof -
  have h: "\<not> has_key ''type'' [(''$ref'', JStr ''#/components/schemas/shapes.Point'')]"
    by (simp add: has_key_def)
  note t1 = map_serializer_missing_entry [where schema_components = qualified_compiler
      and n = "''Point''" and a = empty_auto_schema and d = "''response''",
      OF compile_qualified [of "ClassObj Point"] h]
  note t2 = map_serializer_missing_entry [where schema_components = qualified_compiler
      and a = empty_auto_schema and d = "''response''",
      OF compile_qualified [of nameless_target] h]
  have a: "attr_name (ClassObj Point) = Some ''Point''
           \<and> map_of [(''shapes.Point'', point_schema), (''geo.Point'', point_schema)] ''Point''
               = None"
    by (simp add: Point_def)
  have b: "attr_name nameless_target = None"
    by (simp add: nameless_target_def)
  from t1 t2 a b show ?thesis by blast
qed

text \<open>
  C6, as amended. For a class \<open>T\<close> whose top-level fragment has no \<^verbatim>\<open>type\<close> key and whose
  name is a key of the components, \<^verbatim>\<open>map_serializer\<close> returns the fragment the compiler filed
  under the name of \<open>T\<close>, as it is. The root without a \<^verbatim>\<open>type\<close> key is that of the top-level
  fragment; the returned fragment has whatever keys the compiler gave it.
\<close>

theorem map_serializer_bare_struct:
  assumes "schema_components [ClassObj T] ''#/components/schemas/{name}''
             = Inr (possible_schema # others, components)"
      and "\<not> has_key ''type'' possible_schema"
      and "map_of components (cls_name T) = Some entry"
  shows "\<exists>a'. map_serializer schema_components (ClassObj T) a d = Inr (entry, a')"
  using assms by (simp add: map_serializer_def dict_pop_def)

text \<open>The theorem at \<^verbatim>\<open>Point\<close>.\<close>

theorem map_serializer_bare_struct_witness:
  "\<exists>a'. map_serializer example_compiler (ClassObj Point) empty_auto_schema ''response''
          = Inr (point_schema, a')"
proof -
  have h: "\<not> has_key ''type'' [(''$ref'', JStr ''#/components/schemas/Point'')]"
    by (simp add: has_key_def)
  have e: "map_of [(''Point'', point_schema)] (cls_name Point) = Some point_schema"
    by (simp add: cls_name_Point)
  show ?thesis
    by (rule map_serializer_bare_struct [where schema_components = example_compiler,
          OF compile_point h e])
qed

text \<open>
  C6 as stated fails at \<^verbatim>\<open>Point\<close>, a struct with two named integer fields: the fragment
  returned for it is the object schema of the components, and its root has a \<^verbatim>\<open>type\<close> key.
\<close>

theorem map_serializer_bare_struct_counterexample:
  "map_serializer example_compiler (ClassObj Point) empty_auto_schema ''response''
     = Inr (point_schema, empty_auto_schema)
   \<and> has_key ''type'' point_schema"
proof -
  have r: "map_serializer example_compiler (ClassObj Point) empty_auto_schema ''response''
     = Inr (point_schema, empty_auto_schema)"
    by (simp add: map_serializer_def compile_point has_key_def dict_pop_def cls_name_Point
          empty_auto_schema_def)
  have t: "has_key ''type'' point_schema"
    by (simp add: has_key_def point_schema_def)
  from r t show ?thesis by simp
qed

section \<open>The registry\<close>

text \<open>
  C2. After a call of \<^verbatim>\<open>map_serializer\<close> that returns, every component that was registered
  before the call is still registered with the same body, and a name that was free holds the
  component built from the compiler's entry of that name, unless the entry was the one taken
  out as the result; a free name without an entry stays free.
\<close>

theorem map_serializer_register_on_missing:
  assumes "schema_components [target] ''#/components/schemas/{name}''
             = Inr (possible_schema # others, components)"
      and "map_serializer schema_components target a d = Inr (s, a')"
  shows "(\<forall>n c. registry a n = Some c \<longrightarrow> registry a' n = Some c)
       \<and> (\<forall>n. registry a n = None \<longrightarrow>
            registry a' n =
              (if \<not> has_key ''type'' possible_schema \<and> attr_name target = Some n then None
               else map_option (schema_component n) (map_of components n)))"
proof (cases "has_key ''type'' possible_schema")
  case True
  with assms have "registry a' = register_components components (registry a)"
    by (auto simp: map_serializer_def)
  then show ?thesis using True by (simp add: register_components_lookup)
next
  case False
  with assms obtain nm where nm: "attr_name target = Some nm"
      and a': "registry a' =
        register_components (filter (\<lambda>(k', _). k' \<noteq> nm) components) (registry a)"
    by (auto simp: map_serializer_def dict_pop_def split: option.splits)
  show ?thesis using False nm
    by (simp add: a' register_components_lookup map_of_filter_key)
qed

text \<open>
  The theorem at \<^verbatim>\<open>Line\<close>, which refers to \<^verbatim>\<open>Point\<close>: with a sentinel registered as \<^verbatim>\<open>Point\<close>
  the sentinel stays; with an empty registry \<^verbatim>\<open>Point\<close> is registered and \<^verbatim>\<open>Line\<close>, the
  result itself, is not.
\<close>

theorem map_serializer_register_on_missing_witness:
  "map_serializer example_compiler (ClassObj Line) seeded_auto_schema ''response''
     = Inr (line_schema, seeded_auto_schema)
   \<and> registry seeded_auto_schema ''Point'' = Some sentinel
   \<and> map_serializer example_compiler (ClassObj Line) empty_auto_schema ''response''
     = Inr (line_schema, registered_auto_schema)
   \<and> registry registered_auto_schema ''Point'' = Some (schema_component ''Point'' point_schema)
   \<and> registry registered_auto_schema ''Line'' = None"
proof -
  have h: "\<not> has_key ''type'' [(''$ref'', JStr ''#/components/schemas/Line'')]"
    by (simp add: has_key_def)
  have nm: "attr_name (ClassObj Line) = Some ''Line''"
    by (simp add: cls_name_Line)
  have c1: "map_serializer example_compiler (ClassObj Line) seeded_auto_schema ''response''
     = Inr (line_schema, seeded_auto_schema)"
    by (simp add: map_serializer_def compile_line has_key_def dict_pop_def cls_name_Line
          seeded_auto_schema_def register_on_missing_def schema_component_def)
  have c2: "map_serializer example_compiler (ClassObj Line) empty_auto_schema ''response''
     = Inr (line_schema, registered_auto_schema)"
    by (simp add: map_serializer_def compile_line has_key_def dict_pop_def cls_name_Line
          empty_auto_schema_def registered_auto_schema_def register_on_missing_def
          schema_component_def)
  note t1 = map_serializer_register_on_missing [where schema_components = example_compiler,
      OF compile_line c1]
  note t2 = map_serializer_register_on_missing [where schema_components = example_compiler,
      OF compile_line c2]
  have s: "registry seeded_auto_schema ''Point'' = Some sentinel"
    by (simp add: seeded_auto_schema_def)
  have e: "registry empty_auto_schema ''Line'' = None
         \<and> registry empty_auto_schema ''Point'' = None"
    by (simp add: empty_auto_schema_def)
  from t1 s have p1: "registry seeded_auto_schema ''Point'' = Some sentinel"
    by blast
  from t2 e h nm have p2: "registry registered_auto_schema ''Line'' = None"
    by simp
  from t2 e h nm
  have p3: "registry registered_auto_schema ''Point''
      = Some (schema_component ''Point'' point_schema)"
    by simp
  from c1 c2 p1 p2 p3 show ?thesis by simp
qed

section \<open>Repeated calls\<close>

text \<open>
  C8. The name \<^verbatim>\<open>get_name\<close> gives for a target is the same whatever \<^verbatim>\<open>auto_schema\<close> and
  direction it is called with, and so is the fragment or the error of \<^verbatim>\<open>map_serializer\<close>.
  When a call of \<^verbatim>\<open>map_serializer\<close> returns, a second call on the same target in the registry
  the first one left returns the same fragment and leaves that registry as it is. The
  compiler is a function of its arguments: it gives the same output for the same target.
\<close>

theorem get_name_map_serializer_repeat:
  "get_name target a d = get_name target a' d'
   \<and> map_sum id fst (map_serializer schema_components target a d)
       = map_sum id fst (map_serializer schema_components target a' d')
   \<and> (map_serializer schema_components target a d = Inr (s, a1) \<longrightarrow>
        map_serializer schema_components target a1 d' = Inr (s, a1))"
proof -
  have n: "get_name target a d = get_name target a' d'"
    by (simp add: get_name_def)
  have f: "map_sum id fst (map_serializer schema_components target a d)
       = map_sum id fst (map_serializer schema_components target a' d')"
    by (simp add: map_serializer_def split: sum.splits prod.splits list.splits option.splits)
  have r: "map_serializer schema_components target a1 d' = Inr (s, a1)"
    if "map_serializer schema_components target a d = Inr (s, a1)"
    using that
    by (auto simp: map_serializer_def register_components_idem
          split: sum.splits prod.splits list.splits option.splits if_splits)
  from n f r show ?thesis by blast
qed

text \<open>
  The theorem at \<^verbatim>\<open>Line\<close>: the first call starts from the empty registry and registers
  \<^verbatim>\<open>Point\<close>, the second call returns the same fragment and changes nothing.
\<close>

theorem get_name_map_serializer_repeat_witness:
  "map_serializer example_compiler (ClassObj Line) empty_auto_schema ''response''
     = Inr (line_schema, registered_auto_schema)
   \<and> map_serializer example_compiler (ClassObj Line) registered_auto_schema ''request''
     = Inr (line_schema, registered_auto_schema)"
proof -
  have c: "map_serializer example_compiler (ClassObj Line) empty_auto_schema ''response''
     = Inr (line_schema, registered_auto_schema)"
    by (simp add: map_serializer_def compile_line has_key_def dict_pop_def cls_name_Line
          empty_auto_schema_def registered_auto_schema_def register_on_missing_def
          schema_component_def)
  note th = get_name_map_serializer_repeat [where schema_components = example_compiler
      and target = "ClassObj Line" and a = empty_auto_schema and d = "''response''"
      and d' = "''request''" and s = line_schema and ?a1.0 = registered_auto_schema]
  from th c show ?thesis by blast
qed

end
